theory Spec2Isabelle
  imports Main
begin

section \<open>Go error values\<close>

text \<open>
  A Go \<^verbatim>\<open>error\<close> is an interface value that may be nil; here it is a
  \<open>go_error option\<close> with \<open>None\<close> for nil. The non-nil values this repository builds:
  \<^item> the two package-level sentinels of package turnstile, each created once by
    \<^verbatim>\<open>errors.New\<close> and compared by identity;
  \<^item> \<open>errorString s\<close>: a fresh value made by \<^verbatim>\<open>errors.New(s)\<close>, or by
    \<^verbatim>\<open>fmt.Errorf\<close> with a format that has no \<^verbatim>\<open>%w\<close>; it wraps nothing;
  \<^item> \<open>wrapError p e\<close>: the value of \<^verbatim>\<open>fmt.Errorf\<close> whose format ends in
    \<^verbatim>\<open>%w\<close> with operand \<open>e\<close>; \<open>p\<close> is the formatted text in front of the
    \<^verbatim>\<open>%w\<close>, \<^verbatim>\<open>Unwrap()\<close> gives \<open>e\<close>;
  \<^item> \<open>HTTPError code message internal\<close>: echo's \<^verbatim>\<open>*echo.HTTPError\<close>, whose
    \<^verbatim>\<open>Unwrap()\<close> gives its \<^verbatim>\<open>Internal\<close> field.
\<close>

datatype go_error =
    ErrInvalidRequest
  | ErrValidationFailed
  | errorString string
  | wrapError string go_error
  | HTTPError nat string "go_error option"

text \<open>
  \<^verbatim>\<open>errors.Is(err, target)\<close> for a non-nil \<open>err\<close>: compare, then follow
  \<^verbatim>\<open>Unwrap()\<close> until it yields nil or the value has no such method. The comparison
  \<^verbatim>\<open>err == target\<close> is identity of the values; on the two sentinels, the only targets
  used in this repository, it is equality of the constructors.
\<close>

fun errors_Is :: "go_error \<Rightarrow> go_error \<Rightarrow> bool" where
  "errors_Is (wrapError p e) target = (wrapError p e = target \<or> errors_Is e target)"
| "errors_Is (HTTPError code m (Some e)) target =
     (HTTPError code m (Some e) = target \<or> errors_Is e target)"
| "errors_Is err target = (err = target)"

text \<open>\<^verbatim>\<open>echo.NewHTTPError(code, message)\<close> leaves \<^verbatim>\<open>Internal\<close> nil.\<close>

definition echo_NewHTTPError :: "nat \<Rightarrow> string \<Rightarrow> go_error" where
  "echo_NewHTTPError code message = HTTPError code message None"

text \<open>\<^verbatim>\<open>echo.ErrBadRequest = NewHTTPError(http.StatusBadRequest)\<close>, with the status text as message.\<close>

definition echo_ErrBadRequest :: go_error where
  "echo_ErrBadRequest = echo_NewHTTPError 400 ''Bad Request''"

fun HTTPError_Code :: "go_error \<Rightarrow> nat" where
  "HTTPError_Code (HTTPError code m i) = code"
| "HTTPError_Code e = 0"

section \<open>Package turnstile: error codes and their classification\<close>

type_synonym turnstileErrorCode = string

definition missingInputSecret :: turnstileErrorCode where
  "missingInputSecret = ''missing-input-secret''"

definition invalidInputSecret :: turnstileErrorCode where
  "invalidInputSecret = ''invalid-input-secret''"

definition missingInputResponse :: turnstileErrorCode where
  "missingInputResponse = ''missing-input-response''"

definition invalidInputResponse :: turnstileErrorCode where
  "invalidInputResponse = ''invalid-input-response''"

definition invalidWidgetID :: turnstileErrorCode where
  "invalidWidgetID = ''invalid-widget-id''"

definition invalidParsedSecret :: turnstileErrorCode where
  "invalidParsedSecret = ''invalid-parsed-secret''"

definition badRequest :: turnstileErrorCode where
  "badRequest = ''bad-request''"

definition timeoutOrDuplicate :: turnstileErrorCode where
  "timeoutOrDuplicate = ''timeout-or-duplicate''"

definition internalError :: turnstileErrorCode where
  "internalError = ''internal-error''"

text \<open>\<^verbatim>\<open>slices.Contains\<close>: a linear search from the front.\<close>

primrec slices_Contains :: "'a list \<Rightarrow> 'a \<Rightarrow> bool" where
  "slices_Contains [] v = False"
| "slices_Contains (x # xs) v = (if x = v then True else slices_Contains xs v)"

text \<open>
  The verb \<^verbatim>\<open>%v\<close> on a \<^verbatim>\<open>[]turnstileErrorCode\<close>: the elements separated by one
  space, in square brackets.
\<close>

fun join_space :: "string list \<Rightarrow> string" where
  "join_space [] = []"
| "join_space [x] = x"
| "join_space (x # y # ys) = x @ '' '' @ join_space (y # ys)"

definition fmt_v :: "turnstileErrorCode list \<Rightarrow> string" where
  "fmt_v codes = ''['' @ join_space codes @ '']''"

definition mapErrorCodes :: "turnstileErrorCode list \<Rightarrow> go_error option" where
  "mapErrorCodes codes =
     (if slices_Contains codes internalError then
        Some (errorString ''turnstile server error'')
      else if slices_Contains codes invalidInputResponse \<or> slices_Contains codes timeoutOrDuplicate then
        Some (wrapError (''invalid, duplicate or expired response: '' @ fmt_v codes @ '' '')
                ErrValidationFailed)
      else if slices_Contains codes badRequest \<or> slices_Contains codes missingInputSecret \<or>
              slices_Contains codes invalidInputSecret \<or> slices_Contains codes invalidParsedSecret \<or>
              slices_Contains codes missingInputSecret \<or> slices_Contains codes invalidWidgetID \<or>
              slices_Contains codes missingInputResponse then
        Some (wrapError (''validation error(s) on turnstile: '' @ fmt_v codes @ '' '')
                ErrInvalidRequest)
      else
        Some (errorString (''unhandled turnstile error: '' @ fmt_v codes)))"

section \<open>Package turnstile: the verifier client\<close>

record VerificationRequest =
  Response :: string
  RemoteIP :: string
  IdempotencyKey :: string

text \<open>\<open>ChallengeTs\<close> is a \<^verbatim>\<open>time.Time\<close>; no code of the repository reads it.\<close>

record VerificationResponse =
  Success :: bool
  ChallengeTs :: int
  Hostname :: string
  ErrorCodes :: "turnstileErrorCode list"
  Action :: string
  Cdata :: string

text \<open>The anonymous struct of \<open>Verify\<close>: the request, embedded, and the secret.\<close>

record requestWithSecret = VerificationRequest +
  Secret :: string

record verifierClient =
  secret :: string
  url :: string

definition cloudflareTurnstileUrl :: string where
  "cloudflareTurnstileUrl = ''https://challenges.cloudflare.com/turnstile/v0/siteverify''"

text \<open>
  The interface \<^verbatim>\<open>Verifier\<close> has the one method \<^verbatim>\<open>Verify(ctx, req)\<close>, which
  returns a pair of a response pointer and an error, either of which may be nil. An
  implementation is any Go code, so it may also act on the world outside: it takes the state
  \<open>'s\<close> of that world and returns the new one. \<open>'x\<close> is \<^verbatim>\<open>context.Context\<close>.
\<close>

type_synonym ('s, 'x) Verifier =
  "'x \<Rightarrow> VerificationRequest \<Rightarrow> 's \<Rightarrow> (VerificationResponse option \<times> go_error option) \<times> 's"

record 'x http_Request =
  req_Method :: string
  req_URL :: string
  req_Body :: string
  req_Header :: "(string \<times> string) list"
  req_Context :: 'x

text \<open>\<^verbatim>\<open>Header.Set\<close>: the new value replaces every value of the key.\<close>

definition Header_Set :: "string \<Rightarrow> string \<Rightarrow> (string \<times> string) list \<Rightarrow> (string \<times> string) list" where
  "Header_Set k v h = (k, v) # filter (\<lambda>kv. fst kv \<noteq> k) h"

text \<open>
  What \<open>Verify\<close> and the default extractors call outside this repository is a parameter:
  \<^item> \<open>json_Marshal\<close>: \<^verbatim>\<open>json.Marshal\<close> on the request with the secret;
  \<^item> \<open>http_NewRequestWithContext\<close>: \<^verbatim>\<open>http.NewRequestWithContext(ctx, method, url, body)\<close>;
  \<^item> \<open>client_Do\<close>: \<^verbatim>\<open>(&http.Client{}).Do\<close>, the one outbound call, which acts on
    the world and yields the body of the response or an error;
  \<^item> \<open>json_Decode\<close>: \<^verbatim>\<open>json.NewDecoder(body).Decode\<close> into a zero
    \<^verbatim>\<open>VerificationResponse\<close>;
  \<^item> \<open>RequestID_Generator\<close>: echo's \<^verbatim>\<open>DefaultRequestIDConfig.Generator\<close>, a random
    identifier.
  Each returns either an error (\<open>Inl\<close>) or its result (\<open>Inr\<close>).
\<close>

record ('s, 'x) externals =
  json_Marshal :: "requestWithSecret \<Rightarrow> go_error + string"
  http_NewRequestWithContext :: "'x \<Rightarrow> string \<Rightarrow> string \<Rightarrow> string \<Rightarrow> go_error + 'x http_Request"
  client_Do :: "'x http_Request \<Rightarrow> 's \<Rightarrow> (go_error + string) \<times> 's"
  json_Decode :: "string \<Rightarrow> go_error + VerificationResponse"
  RequestID_Generator :: "'s \<Rightarrow> string \<times> 's"

definition NewVerifierClient :: "string \<Rightarrow> verifierClient" where
  "NewVerifierClient sec = \<lparr>secret = sec, url = cloudflareTurnstileUrl\<rparr>"

definition NewVerifierClientWithURL :: "string \<Rightarrow> string \<Rightarrow> verifierClient" where
  "NewVerifierClientWithURL sec u = \<lparr>secret = sec, url = u\<rparr>"

text \<open>
  The method \<open>Verify\<close> of \<^verbatim>\<open>verifierClient\<close>, in two parts. \<open>Verify_decode\<close> is its
  body up to and including the decoding of the response: it yields the wrapped error of the
  step that failed, or the decoded response. \<open>Verify\<close> is the whole method: it returns nil
  and that error, or else looks at the flag \<^verbatim>\<open>Success\<close> of the decoded response.
\<close>

definition Verify_decode ::
  "('s, 'x) externals \<Rightarrow> verifierClient \<Rightarrow> 'x \<Rightarrow> VerificationRequest \<Rightarrow> 's \<Rightarrow>
   (go_error + VerificationResponse) \<times> 's" where
  "Verify_decode ext t ctx req s =
     (let requestWithSecret = VerificationRequest.extend req (requestWithSecret.fields (secret t)) in
      case json_Marshal ext requestWithSecret of
        Inl err \<Rightarrow> (Inl (wrapError ''can not marshall verification request to JSON: '' err), s)
      | Inr requestJSON \<Rightarrow>
         (case http_NewRequestWithContext ext ctx ''POST'' (url t) requestJSON of
            Inl err \<Rightarrow> (Inl (wrapError ''can not create HTTP request: '' err), s)
          | Inr httpReq0 \<Rightarrow>
             (let httpReq = httpReq0\<lparr>req_Header :=
                    Header_Set ''Content-Type'' ''application/json'' (req_Header httpReq0)\<rparr> in
              case client_Do ext httpReq s of
                (Inl err, s') \<Rightarrow> (Inl (wrapError ''error sending HTTP request: '' err), s')
              | (Inr body, s') \<Rightarrow>
                 (case json_Decode ext body of
                    Inl err \<Rightarrow>
                      (Inl (wrapError ''can not decode turnstile response into JSON: '' err), s')
                  | Inr resp \<Rightarrow> (Inr resp, s')))))"

definition Verify :: "('s, 'x) externals \<Rightarrow> verifierClient \<Rightarrow> ('s, 'x) Verifier" where
  "Verify ext t ctx req s =
     (case Verify_decode ext t ctx req s of
        (Inl err, s') \<Rightarrow> ((None, Some err), s')
      | (Inr resp, s') \<Rightarrow>
         (if \<not> Success resp then ((Some resp, mapErrorCodes (ErrorCodes resp)), s')
          else ((Some resp, None), s')))"

section \<open>Package echoturnstile: the middleware\<close>

definition defaultCloudFlareTurnstileHeaderKey :: string where
  "defaultCloudFlareTurnstileHeaderKey = ''cf-turnstile-response''"

definition defaultCloudFlareRemoteIPHeader :: string where
  "defaultCloudFlareRemoteIPHeader = ''CF-Connecting-IP''"

definition echo_HeaderXRequestID :: string where
  "echo_HeaderXRequestID = ''X-Request-Id''"

text \<open>
  What the middleware reads of an \<^verbatim>\<open>echo.Context\<close>: \<open>Header_Get\<close> is
  \<^verbatim>\<open>c.Request().Header.Get\<close>, \<open>RealIP\<close> is \<^verbatim>\<open>c.RealIP()\<close>, \<open>Request_Context\<close>
  is \<^verbatim>\<open>c.Request().Context()\<close>.
\<close>

record 'x echo_Context =
  Header_Get :: "string \<Rightarrow> string"
  RealIP :: string
  Request_Context :: 'x

text \<open>
  A handler returns an error, nil or not, or the goroutine panics. The function values a
  caller configures are arbitrary Go code: each takes the state of the world and returns the
  new one, so that whether it was invoked shows in the state.
\<close>

datatype outcome = Returned "go_error option" | Panic

type_synonym ('s, 'x) HandlerFunc = "'x echo_Context \<Rightarrow> 's \<Rightarrow> outcome \<times> 's"

type_synonym ('s, 'x) Skipper = "'x echo_Context \<Rightarrow> 's \<Rightarrow> bool \<times> 's"

type_synonym ('s, 'x) TurnstileResponseExtractorFunc =
  "'x echo_Context \<Rightarrow> 's \<Rightarrow> (string \<times> go_error option) \<times> 's"

type_synonym ('s, 'x) RemoteIPExtractorFunc =
  "'x echo_Context \<Rightarrow> 's \<Rightarrow> (string \<times> go_error option) \<times> 's"

type_synonym ('s, 'x) IdempotencyKeyExtractorFunc =
  "'x echo_Context \<Rightarrow> 's \<Rightarrow> (string \<times> go_error option) \<times> 's"

text \<open>
  The fields of both structs are function values and an interface value: \<open>None\<close> is nil.
\<close>

record ('s, 'x) middleware =
  skipper :: "('s, 'x) Skipper option"
  turnstileVerifier :: "('s, 'x) Verifier option"
  turnstileResponseExtractorFunc :: "('s, 'x) TurnstileResponseExtractorFunc option"
  remoteIPExtractorFunc :: "('s, 'x) RemoteIPExtractorFunc option"
  idempotencyKeyExtractorFunc :: "('s, 'x) IdempotencyKeyExtractorFunc option"

record ('s, 'x) Config =
  cfg_Skipper :: "('s, 'x) Skipper option"
  cfg_TurnstileVerifier :: "('s, 'x) Verifier option"
  cfg_TurnstileResponseExtractorFunc :: "('s, 'x) TurnstileResponseExtractorFunc option"
  cfg_RemoteIPExtractorFunc :: "('s, 'x) RemoteIPExtractorFunc option"
  cfg_IdempotencyKeyExtractorFunc :: "('s, 'x) IdempotencyKeyExtractorFunc option"

text \<open>\<^verbatim>\<open>Config{}\<close>: every field nil.\<close>

definition Config_zero :: "('s, 'x) Config" where
  "Config_zero = \<lparr>cfg_Skipper = None, cfg_TurnstileVerifier = None,
     cfg_TurnstileResponseExtractorFunc = None, cfg_RemoteIPExtractorFunc = None,
     cfg_IdempotencyKeyExtractorFunc = None\<rparr>"

text \<open>echo's \<^verbatim>\<open>middleware.DefaultSkipper\<close> returns false.\<close>

definition DefaultSkipper :: "('s, 'x) Skipper" where
  "DefaultSkipper c s = (False, s)"

text \<open>The method \<open>Extract\<close> of \<^verbatim>\<open>requestHeaderTurnstileResponseExtractor\<close>.\<close>

definition requestHeaderTurnstileResponseExtractor_Extract ::
  "string \<Rightarrow> ('s, 'x) TurnstileResponseExtractorFunc" where
  "requestHeaderTurnstileResponseExtractor_Extract headerName c s =
     (let val = Header_Get c headerName in
      if val = [] then
        (([], Some (echo_NewHTTPError (HTTPError_Code echo_ErrBadRequest)
                     (''expected turnstile response in header '' @ headerName))), s)
      else ((val, None), s))"

definition RequestHeaderTurnstileResponseExtractorFuncWithHeaderName ::
  "string \<Rightarrow> ('s, 'x) TurnstileResponseExtractorFunc" where
  "RequestHeaderTurnstileResponseExtractorFuncWithHeaderName headerName =
     requestHeaderTurnstileResponseExtractor_Extract headerName"

definition RequestHeaderTurnstileResponseExtractorFunc ::
  "('s, 'x) TurnstileResponseExtractorFunc" where
  "RequestHeaderTurnstileResponseExtractorFunc =
     RequestHeaderTurnstileResponseExtractorFuncWithHeaderName defaultCloudFlareTurnstileHeaderKey"

definition EchoRemoteIPExtractor :: "('s, 'x) RemoteIPExtractorFunc" where
  "EchoRemoteIPExtractor c s = ((RealIP c, None), s)"

text \<open>The method \<open>Extract\<close> of \<^verbatim>\<open>requestHeaderRemoteIPExtractor\<close>.\<close>

definition requestHeaderRemoteIPExtractor_Extract ::
  "string \<Rightarrow> ('s, 'x) RemoteIPExtractorFunc" where
  "requestHeaderRemoteIPExtractor_Extract headerName c s =
     (let val = Header_Get c headerName in
      if val = [] then
        (([], Some (wrapError (''expected turnstile response in header '' @ headerName @ '': '')
                     echo_ErrBadRequest)), s)
      else ((val, None), s))"

definition CloudFlareRequestHeaderRemoteIPExtractor :: "('s, 'x) RemoteIPExtractorFunc" where
  "CloudFlareRequestHeaderRemoteIPExtractor =
     requestHeaderRemoteIPExtractor_Extract defaultCloudFlareRemoteIPHeader"

definition EchoIdempotencyKeyExtractor ::
  "('s, 'x) externals \<Rightarrow> ('s, 'x) IdempotencyKeyExtractorFunc" where
  "EchoIdempotencyKeyExtractor ext c s =
     (let requestId = Header_Get c echo_HeaderXRequestID in
      if requestId = [] then
        (case RequestID_Generator ext s of (requestId', s') \<Rightarrow> ((requestId', None), s'))
      else ((requestId, None), s))"

text \<open>
  The method \<open>Process\<close>. Calling a nil function value, or a method on a nil interface
  value, panics.
\<close>

definition Process ::
  "('s, 'x) middleware \<Rightarrow> ('s, 'x) HandlerFunc \<Rightarrow> ('s, 'x) HandlerFunc" where
  "Process mw next c s =
     (case skipper mw of
        None \<Rightarrow> (Panic, s)
      | Some skip \<Rightarrow>
         (case skip c s of
            (True, s1) \<Rightarrow> next c s1
          | (False, s1) \<Rightarrow>
             (case turnstileResponseExtractorFunc mw of
                None \<Rightarrow> (Panic, s1)
              | Some extractResponse \<Rightarrow>
                 (case extractResponse c s1 of
                    ((turnstileResponseValue, Some err), s2) \<Rightarrow> (Returned (Some err), s2)
                  | ((turnstileResponseValue, None), s2) \<Rightarrow>
                     (case remoteIPExtractorFunc mw of
                        None \<Rightarrow> (Panic, s2)
                      | Some extractIP \<Rightarrow>
                         (case extractIP c s2 of
                            ((remoteIP, Some err), s3) \<Rightarrow> (Returned (Some err), s3)
                          | ((remoteIP, None), s3) \<Rightarrow>
                             (case idempotencyKeyExtractorFunc mw of
                                None \<Rightarrow> (Panic, s3)
                              | Some extractKey \<Rightarrow>
                                 (case extractKey c s3 of
                                    ((idempotencyKey, Some err), s4) \<Rightarrow> (Returned (Some err), s4)
                                  | ((idempotencyKey, None), s4) \<Rightarrow>
                                     (let req = \<lparr>Response = turnstileResponseValue,
                                                 RemoteIP = remoteIP,
                                                 IdempotencyKey = idempotencyKey\<rparr> in
                                      case turnstileVerifier mw of
                                        None \<Rightarrow> (Panic, s4)
                                      | Some verifier \<Rightarrow>
                                         (case verifier (Request_Context c) req s4 of
                                            ((resp, Some err), s5) \<Rightarrow>
                                              (if errors_Is err ErrValidationFailed then
                                                 (Returned (Some (echo_NewHTTPError
                                                    (HTTPError_Code echo_ErrBadRequest)
                                                    ''CloudFlare Turnstile verification failed'')), s5)
                                               else (Returned (Some err), s5))
                                          | ((resp, None), s5) \<Rightarrow> next c s5))))))))))"

text \<open>
  \<open>NewMiddlewareWithConfig\<close> builds the struct and returns its method \<open>Process\<close>;
  \<open>NewMiddlewareWithConfig_mw\<close> is the struct it builds. Each local variable starts as nil
  and is assigned in the one branch the source has.
\<close>

definition NewMiddlewareWithConfig_mw ::
  "('s, 'x) externals \<Rightarrow> string \<Rightarrow> ('s, 'x) Config \<Rightarrow> ('s, 'x) middleware" where
  "NewMiddlewareWithConfig_mw ext sec cfg =
     (let skipper = (if cfg_Skipper cfg = None then Some DefaultSkipper else None);
          turnstileVerifier =
            (if cfg_TurnstileVerifier cfg = None then Some (Verify ext (NewVerifierClient sec))
             else None);
          turnstileResponseExtractorFunc =
            (if cfg_TurnstileResponseExtractorFunc cfg = None
             then Some RequestHeaderTurnstileResponseExtractorFunc else None);
          remoteIpExtractorFunc =
            (if cfg_RemoteIPExtractorFunc cfg = None then Some EchoRemoteIPExtractor else None);
          idempotencyKeyExtractorFunc =
            (if cfg_IdempotencyKeyExtractorFunc cfg = None
             then Some (EchoIdempotencyKeyExtractor ext) else None)
      in \<lparr>skipper = skipper,
          turnstileVerifier = turnstileVerifier,
          turnstileResponseExtractorFunc = turnstileResponseExtractorFunc,
          remoteIPExtractorFunc = remoteIpExtractorFunc,
          idempotencyKeyExtractorFunc = idempotencyKeyExtractorFunc\<rparr>)"

definition NewMiddlewareWithConfig ::
  "('s, 'x) externals \<Rightarrow> string \<Rightarrow> ('s, 'x) Config \<Rightarrow>
   ('s, 'x) HandlerFunc \<Rightarrow> ('s, 'x) HandlerFunc" where
  "NewMiddlewareWithConfig ext sec cfg = Process (NewMiddlewareWithConfig_mw ext sec cfg)"

definition NewMiddleware ::
  "('s, 'x) externals \<Rightarrow> string \<Rightarrow> ('s, 'x) HandlerFunc \<Rightarrow> ('s, 'x) HandlerFunc" where
  "NewMiddleware ext sec = NewMiddlewareWithConfig ext sec Config_zero"

section \<open>Test doubles\<close>

text \<open>
  Concrete collaborators for running the definitions: the world is the list of the calls made
  so far, and every double appends its name to it. \<open>stub_externals resp\<close> is a network
  whose answer decodes to \<open>resp\<close>.
\<close>

definition stub_externals :: "VerificationResponse \<Rightarrow> (string list, unit) externals" where
  "stub_externals resp =
     \<lparr>json_Marshal = (\<lambda>r. Inr (Response r @ '','' @ Secret r)),
      http_NewRequestWithContext = (\<lambda>ctx m u b.
        Inr \<lparr>req_Method = m, req_URL = u, req_Body = b, req_Header = [], req_Context = ctx\<rparr>),
      client_Do = (\<lambda>r s. (Inr ''{}'', s @ [''client.Do''])),
      json_Decode = (\<lambda>body. Inr resp),
      RequestID_Generator = (\<lambda>s. (''generated-id'', s @ [''Generator'']))\<rparr>"

definition stub_Context :: "(string \<times> string) list \<Rightarrow> unit echo_Context" where
  "stub_Context hs =
     \<lparr>Header_Get = (\<lambda>k. case map_of hs k of None \<Rightarrow> [] | Some v \<Rightarrow> v),
      RealIP = ''203.0.113.7'',
      Request_Context = ()\<rparr>"

definition stub_skipper :: "bool \<Rightarrow> (string list, unit) Skipper" where
  "stub_skipper b c s = (b, s @ [''skipper''])"

definition stub_extractor ::
  "string \<Rightarrow> string \<times> go_error option \<Rightarrow> unit echo_Context \<Rightarrow> string list \<Rightarrow>
   (string \<times> go_error option) \<times> string list" where
  "stub_extractor name r c s = (r, s @ [name])"

definition stub_verifier ::
  "VerificationResponse option \<times> go_error option \<Rightarrow> (string list, unit) Verifier" where
  "stub_verifier r ctx req s = (r, s @ [''Verify''])"

definition stub_next :: "(string list, unit) HandlerFunc" where
  "stub_next c s = (Returned None, s @ [''next''])"

definition stub_response :: "bool \<Rightarrow> turnstileErrorCode list \<Rightarrow> VerificationResponse" where
  "stub_response ok codes =
     \<lparr>Success = ok, ChallengeTs = 0, Hostname = ''example.com'', ErrorCodes = codes,
      Action = [], Cdata = []\<rparr>"

text \<open>A middleware made of doubles only: each of its five fields logs its call.\<close>

definition stub_middleware ::
  "bool \<Rightarrow> string \<times> go_error option \<Rightarrow> string \<times> go_error option \<Rightarrow>
   string \<times> go_error option \<Rightarrow> VerificationResponse option \<times> go_error option \<Rightarrow>
   (string list, unit) middleware" where
  "stub_middleware skip tok ip key ver =
     \<lparr>skipper = Some (stub_skipper skip),
      turnstileVerifier = Some (stub_verifier ver),
      turnstileResponseExtractorFunc = Some (stub_extractor ''token'' tok),
      remoteIPExtractorFunc = Some (stub_extractor ''remoteIP'' ip),
      idempotencyKeyExtractorFunc = Some (stub_extractor ''idempotencyKey'' key)\<rparr>"

section \<open>Classification of error codes\<close>

lemmas code_defs =
  missingInputSecret_def invalidInputSecret_def missingInputResponse_def
  invalidInputResponse_def invalidWidgetID_def invalidParsedSecret_def
  badRequest_def timeoutOrDuplicate_def internalError_def

lemma slices_Contains_set: "slices_Contains xs v \<longleftrightarrow> v \<in> set xs"
  by (induction xs) auto

text \<open>
  Claim C3. Whenever the code sequence contains \<^verbatim>\<open>internal-error\<close>, whatever else it
  contains, \<open>mapErrorCodes\<close> returns the generic server error, a non-nil value for which
  \<^verbatim>\<open>errors.Is\<close> is false against both \<open>ErrValidationFailed\<close> and \<open>ErrInvalidRequest\<close>.
\<close>

theorem mapErrorCodes_internal_error:
  assumes "''internal-error'' \<in> set codes"
  shows "\<exists>e. mapErrorCodes codes = Some e \<and> e = errorString ''turnstile server error'' \<and>
           \<not> errors_Is e ErrValidationFailed \<and> \<not> errors_Is e ErrInvalidRequest"
  using assms by (simp add: mapErrorCodes_def slices_Contains_set internalError_def)

theorem mapErrorCodes_internal_error_witness:
  "''internal-error'' \<in> set [''timeout-or-duplicate'', ''internal-error'', ''bad-request''] \<and>
   (\<exists>e. mapErrorCodes [''timeout-or-duplicate'', ''internal-error'', ''bad-request''] = Some e \<and>
        e = errorString ''turnstile server error'' \<and>
        \<not> errors_Is e ErrValidationFailed \<and> \<not> errors_Is e ErrInvalidRequest)"
proof -
  have h: "''internal-error'' \<in> set [''timeout-or-duplicate'', ''internal-error'', ''bad-request'']"
    by simp
  show ?thesis
    using h mapErrorCodes_internal_error [OF h] by blast
qed

text \<open>
  Claim C4. Whenever the code sequence contains \<^verbatim>\<open>invalid-input-response\<close> or
  \<^verbatim>\<open>timeout-or-duplicate\<close> and does not contain \<^verbatim>\<open>internal-error\<close>,
  \<open>mapErrorCodes\<close> returns a non-nil error for which
  \<^verbatim>\<open>errors.Is(err, ErrValidationFailed)\<close> is true.
\<close>

theorem mapErrorCodes_validation_failed:
  assumes "''invalid-input-response'' \<in> set codes \<or> ''timeout-or-duplicate'' \<in> set codes"
    and "''internal-error'' \<notin> set codes"
  shows "\<exists>e. mapErrorCodes codes = Some e \<and> errors_Is e ErrValidationFailed"
  using assms
  by (auto simp add: mapErrorCodes_def slices_Contains_set internalError_def
      invalidInputResponse_def timeoutOrDuplicate_def)

theorem mapErrorCodes_validation_failed_witness:
  "(''invalid-input-response'' \<in> set [''bad-request'', ''timeout-or-duplicate''] \<or>
    ''timeout-or-duplicate'' \<in> set [''bad-request'', ''timeout-or-duplicate'']) \<and>
   ''internal-error'' \<notin> set [''bad-request'', ''timeout-or-duplicate''] \<and>
   (\<exists>e. mapErrorCodes [''bad-request'', ''timeout-or-duplicate''] = Some e \<and>
        errors_Is e ErrValidationFailed)"
proof -
  have h1: "''invalid-input-response'' \<in> set [''bad-request'', ''timeout-or-duplicate''] \<or>
            ''timeout-or-duplicate'' \<in> set [''bad-request'', ''timeout-or-duplicate'']"
    by simp
  have h2: "''internal-error'' \<notin> set [''bad-request'', ''timeout-or-duplicate'']"
    by simp
  show ?thesis
    using h1 h2 mapErrorCodes_validation_failed [OF h1 h2] by blast
qed

text \<open>
  Claim C5. Whenever the code sequence contains at least one of \<^verbatim>\<open>bad-request\<close>,
  \<^verbatim>\<open>missing-input-secret\<close>, \<^verbatim>\<open>invalid-input-secret\<close>,
  \<^verbatim>\<open>invalid-parsed-secret\<close>, \<^verbatim>\<open>invalid-widget-id\<close>,
  \<^verbatim>\<open>missing-input-response\<close> and none of \<^verbatim>\<open>internal-error\<close>,
  \<^verbatim>\<open>invalid-input-response\<close>, \<^verbatim>\<open>timeout-or-duplicate\<close>, \<open>mapErrorCodes\<close>
  returns a non-nil error for which \<^verbatim>\<open>errors.Is(err, ErrInvalidRequest)\<close> is true.
\<close>

theorem mapErrorCodes_invalid_request:
  assumes "set codes \<inter> {''bad-request'', ''missing-input-secret'', ''invalid-input-secret'',
             ''invalid-parsed-secret'', ''invalid-widget-id'', ''missing-input-response''} \<noteq> {}"
    and "set codes \<inter> {''internal-error'', ''invalid-input-response'', ''timeout-or-duplicate''} = {}"
  shows "\<exists>e. mapErrorCodes codes = Some e \<and> errors_Is e ErrInvalidRequest"
proof -
  from assms(2) have none:
    "\<not> slices_Contains codes internalError"
    "\<not> slices_Contains codes invalidInputResponse"
    "\<not> slices_Contains codes timeoutOrDuplicate"
    by (auto simp add: slices_Contains_set code_defs)
  from assms(1) have some:
    "slices_Contains codes badRequest \<or> slices_Contains codes missingInputSecret \<or>
     slices_Contains codes invalidInputSecret \<or> slices_Contains codes invalidParsedSecret \<or>
     slices_Contains codes missingInputSecret \<or> slices_Contains codes invalidWidgetID \<or>
     slices_Contains codes missingInputResponse"
    unfolding slices_Contains_set code_defs by blast
  from none some show ?thesis
    unfolding mapErrorCodes_def by (simp del: slices_Contains.simps)
qed

theorem mapErrorCodes_invalid_request_witness:
  "set [''invalid-widget-id'', ''some-new-code''] \<inter>
     {''bad-request'', ''missing-input-secret'', ''invalid-input-secret'',
      ''invalid-parsed-secret'', ''invalid-widget-id'', ''missing-input-response''} \<noteq> {} \<and>
   set [''invalid-widget-id'', ''some-new-code''] \<inter>
     {''internal-error'', ''invalid-input-response'', ''timeout-or-duplicate''} = {} \<and>
   (\<exists>e. mapErrorCodes [''invalid-widget-id'', ''some-new-code''] = Some e \<and>
        errors_Is e ErrInvalidRequest)"
proof -
  have h1: "set [''invalid-widget-id'', ''some-new-code''] \<inter>
     {''bad-request'', ''missing-input-secret'', ''invalid-input-secret'',
      ''invalid-parsed-secret'', ''invalid-widget-id'', ''missing-input-response''} \<noteq> {}"
    by simp
  have h2: "set [''invalid-widget-id'', ''some-new-code''] \<inter>
     {''internal-error'', ''invalid-input-response'', ''timeout-or-duplicate''} = {}"
    by simp
  show ?thesis
    using h1 h2 mapErrorCodes_invalid_request [OF h1 h2] by blast
qed

section \<open>The verifier client on a decoded response\<close>

text \<open>
  Claim C6. For a code sequence that is empty or contains none of the nine codes the
  rules name, \<open>mapErrorCodes\<close> returns a non-nil error that wraps nothing, so it matches
  neither sentinel, and whose text ends in the codes as \<^verbatim>\<open>%v\<close> prints them. When
  \<open>Verify\<close> has decoded a response with \<^verbatim>\<open>Success\<close> false and these codes, it returns
  the response and this error. Whatever the codes, the error \<open>Verify\<close> returns with a decoded
  response whose \<^verbatim>\<open>Success\<close> is false is not nil.
\<close>

theorem Verify_unhandled_codes:
  assumes "codes = [] \<or>
           set codes \<inter> {''internal-error'', ''invalid-input-response'', ''timeout-or-duplicate'',
             ''bad-request'', ''missing-input-secret'', ''invalid-input-secret'',
             ''invalid-parsed-secret'', ''invalid-widget-id'', ''missing-input-response''} = {}"
  shows "mapErrorCodes codes = Some (errorString (''unhandled turnstile error: '' @ fmt_v codes)) \<and>
         \<not> errors_Is (errorString (''unhandled turnstile error: '' @ fmt_v codes)) ErrValidationFailed \<and>
         \<not> errors_Is (errorString (''unhandled turnstile error: '' @ fmt_v codes)) ErrInvalidRequest \<and>
         (Verify_decode ext t ctx req s = (Inr resp, s') \<and> \<not> Success resp \<and>
          ErrorCodes resp = codes \<longrightarrow>
          Verify ext t ctx req s =
            ((Some resp, Some (errorString (''unhandled turnstile error: '' @ fmt_v codes))), s')) \<and>
         (Verify_decode ext t ctx req s = (Inr resp, s') \<and> \<not> Success resp \<longrightarrow>
          (\<exists>e. Verify ext t ctx req s = ((Some resp, Some e), s')))"
proof -
  from assms have none:
    "set codes \<inter> {''internal-error'', ''invalid-input-response'', ''timeout-or-duplicate'',
       ''bad-request'', ''missing-input-secret'', ''invalid-input-secret'',
       ''invalid-parsed-secret'', ''invalid-widget-id'', ''missing-input-response''} = {}"
    by auto
  then have m: "mapErrorCodes codes = Some (errorString (''unhandled turnstile error: '' @ fmt_v codes))"
    unfolding mapErrorCodes_def slices_Contains_set code_defs by auto
  have nonnil: "\<exists>e. mapErrorCodes (ErrorCodes resp) = Some e"
    by (simp add: mapErrorCodes_def)
  show ?thesis
    using nonnil by (auto simp add: m Verify_def)
qed

theorem Verify_unhandled_codes_witness:
  "([''some-new-code''] = [] \<or>
    set [''some-new-code''] \<inter> {''internal-error'', ''invalid-input-response'',
      ''timeout-or-duplicate'', ''bad-request'', ''missing-input-secret'', ''invalid-input-secret'',
      ''invalid-parsed-secret'', ''invalid-widget-id'', ''missing-input-response''} = {}) \<and>
   mapErrorCodes [''some-new-code''] =
     Some (errorString ''unhandled turnstile error: [some-new-code]'') \<and>
   Verify_decode (stub_externals (stub_response False [''some-new-code'']))
       (NewVerifierClient ''key'') ()
       \<lparr>Response = ''token'', RemoteIP = ''203.0.113.7'', IdempotencyKey = ''id-1''\<rparr> [] =
     (Inr (stub_response False [''some-new-code'']), [''client.Do'']) \<and>
   Verify (stub_externals (stub_response False [''some-new-code''])) (NewVerifierClient ''key'') ()
       \<lparr>Response = ''token'', RemoteIP = ''203.0.113.7'', IdempotencyKey = ''id-1''\<rparr> [] =
     ((Some (stub_response False [''some-new-code'']),
       Some (errorString ''unhandled turnstile error: [some-new-code]'')), [''client.Do''])"
proof -
  have h: "[''some-new-code''] = [] \<or>
    set [''some-new-code''] \<inter> {''internal-error'', ''invalid-input-response'',
      ''timeout-or-duplicate'', ''bad-request'', ''missing-input-secret'', ''invalid-input-secret'',
      ''invalid-parsed-secret'', ''invalid-widget-id'', ''missing-input-response''} = {}"
    by simp
  have d: "Verify_decode (stub_externals (stub_response False [''some-new-code'']))
             (NewVerifierClient ''key'') ()
             \<lparr>Response = ''token'', RemoteIP = ''203.0.113.7'', IdempotencyKey = ''id-1''\<rparr> [] =
           (Inr (stub_response False [''some-new-code'']), [''client.Do''])"
    by (simp add: Verify_decode_def stub_externals_def)
  have r: "\<not> Success (stub_response False [''some-new-code''])"
          "ErrorCodes (stub_response False [''some-new-code'']) = [''some-new-code'']"
    by (simp_all add: stub_response_def)
  have f: "''unhandled turnstile error: '' @ fmt_v [''some-new-code''] =
           ''unhandled turnstile error: [some-new-code]''"
    by (simp add: fmt_v_def)
  have v: "Verify (stub_externals (stub_response False [''some-new-code'']))
             (NewVerifierClient ''key'') ()
             \<lparr>Response = ''token'', RemoteIP = ''203.0.113.7'', IdempotencyKey = ''id-1''\<rparr> [] =
           ((Some (stub_response False [''some-new-code'']),
             Some (errorString (''unhandled turnstile error: '' @ fmt_v [''some-new-code'']))),
            [''client.Do''])"
    and m: "mapErrorCodes [''some-new-code''] =
           Some (errorString (''unhandled turnstile error: '' @ fmt_v [''some-new-code'']))"
    using d r
      Verify_unhandled_codes [OF h,
        where ext = "stub_externals (stub_response False [''some-new-code''])"
          and t = "NewVerifierClient ''key''" and ctx = "()"
          and req = "\<lparr>Response = ''token'', RemoteIP = ''203.0.113.7'', IdempotencyKey = ''id-1''\<rparr>"
          and s = "[]" and resp = "stub_response False [''some-new-code'']"
          and s' = "[''client.Do'']"]
    by (simp_all only: simp_thms)
  show ?thesis
    by (rule conjI [OF h conjI [OF m [unfolded f] conjI [OF d v [unfolded f]]]])
qed

section \<open>The middleware\<close>

text \<open>
  Claim C9. When the skip predicate returns true, \<open>Process\<close> is the downstream handler,
  applied to the same context \<open>c\<close> in the state the skip predicate left: it returns the
  handler's result. The extractors and the verifier of \<open>mw\<close> are arbitrary, so none of them
  has acted on the state in between: none was invoked.
\<close>

theorem Process_skip:
  assumes "skipper mw = Some skip" and "skip c s = (True, s1)"
  shows "Process mw next c s = next c s1"
  using assms by (simp add: Process_def)

theorem Process_skip_witness:
  "skipper (stub_middleware True (''token'', None) (''203.0.113.7'', None) (''id-1'', None)
      (None, Some ErrValidationFailed)) = Some (stub_skipper True) \<and>
   stub_skipper True (stub_Context []) [] = (True, [''skipper'']) \<and>
   Process (stub_middleware True (''token'', None) (''203.0.113.7'', None) (''id-1'', None)
      (None, Some ErrValidationFailed)) stub_next (stub_Context []) [] =
     (Returned None, [''skipper'', ''next''])"
proof -
  have h1: "skipper (stub_middleware True (''token'', None) (''203.0.113.7'', None) (''id-1'', None)
      (None, Some ErrValidationFailed)) = Some (stub_skipper True)"
    by (simp add: stub_middleware_def)
  have h2: "stub_skipper True (stub_Context []) [] = (True, [''skipper''])"
    by (simp add: stub_skipper_def)
  have n: "stub_next (stub_Context []) [''skipper''] = (Returned None, [''skipper'', ''next''])"
    by (simp add: stub_next_def)
  show ?thesis
    using h1 h2 Process_skip [OF h1 h2, of stub_next] by (simp only: n simp_thms)
qed

text \<open>
  Claim C8. When the skip predicate returns false and the token extractor returns an error,
  \<open>Process\<close> returns that error, in the state the token extractor left. The same holds
  further down: an error of the remote-IP extractor is returned in the state it left, and so
  is an error of the idempotency-key extractor. The later extractors, the verifier and the
  downstream handler are arbitrary and may even be nil, so none of them has acted on the
  state: none was invoked.
\<close>

theorem Process_extractor_error:
  assumes "skipper mw = Some skip" and "skip c s = (False, s1)"
    and "turnstileResponseExtractorFunc mw = Some extractResponse"
  shows "(extractResponse c s1 = ((v1, Some err), s2) \<longrightarrow>
            Process mw next c s = (Returned (Some err), s2)) \<and>
         (extractResponse c s1 = ((v1, None), s2) \<and>
          remoteIPExtractorFunc mw = Some extractIP \<and>
          extractIP c s2 = ((v2, Some err), s3) \<longrightarrow>
            Process mw next c s = (Returned (Some err), s3)) \<and>
         (extractResponse c s1 = ((v1, None), s2) \<and>
          remoteIPExtractorFunc mw = Some extractIP \<and>
          extractIP c s2 = ((v2, None), s3) \<and>
          idempotencyKeyExtractorFunc mw = Some extractKey \<and>
          extractKey c s3 = ((v3, Some err), s4) \<longrightarrow>
            Process mw next c s = (Returned (Some err), s4))"
  using assms by (simp add: Process_def)

theorem Process_extractor_error_witness:
  "Process (stub_middleware False ([], Some (errorString ''no token'')) (''203.0.113.7'', None)
      (''id-1'', None) (None, None)) stub_next (stub_Context []) [] =
     (Returned (Some (errorString ''no token'')), [''skipper'', ''token'']) \<and>
   Process (stub_middleware False (''token'', None) ([], Some (errorString ''no address''))
      (''id-1'', None) (None, None)) stub_next (stub_Context []) [] =
     (Returned (Some (errorString ''no address'')), [''skipper'', ''token'', ''remoteIP'']) \<and>
   Process (stub_middleware False (''token'', None) (''203.0.113.7'', None)
      ([], Some (errorString ''no key'')) (None, None)) stub_next (stub_Context []) [] =
     (Returned (Some (errorString ''no key'')),
      [''skipper'', ''token'', ''remoteIP'', ''idempotencyKey''])"
proof -
  let ?c = "stub_Context []"
  let ?m1 = "stub_middleware False ([], Some (errorString ''no token'')) (''203.0.113.7'', None)
      (''id-1'', None) (None, None)"
  let ?m2 = "stub_middleware False (''token'', None) ([], Some (errorString ''no address''))
      (''id-1'', None) (None, None)"
  let ?m3 = "stub_middleware False (''token'', None) (''203.0.113.7'', None)
      ([], Some (errorString ''no key'')) (None, None)"
  have sk: "stub_skipper False ?c [] = (False, [''skipper''])"
    by (simp add: stub_skipper_def)
  have a1: "skipper ?m1 = Some (stub_skipper False)"
    and b1: "turnstileResponseExtractorFunc ?m1 =
      Some (stub_extractor ''token'' ([], Some (errorString ''no token'')))"
    by (simp_all add: stub_middleware_def)
  have e1: "stub_extractor ''token'' ([], Some (errorString ''no token'')) ?c [''skipper''] =
      (([], Some (errorString ''no token'')), [''skipper'', ''token''])"
    by (simp add: stub_extractor_def)
  have r1: "Process ?m1 stub_next ?c [] =
      (Returned (Some (errorString ''no token'')), [''skipper'', ''token''])"
    using Process_extractor_error [OF a1 sk b1] e1 by blast
  have a2: "skipper ?m2 = Some (stub_skipper False)"
    and b2: "turnstileResponseExtractorFunc ?m2 = Some (stub_extractor ''token'' (''token'', None))"
    and c2: "remoteIPExtractorFunc ?m2 =
      Some (stub_extractor ''remoteIP'' ([], Some (errorString ''no address'')))"
    by (simp_all add: stub_middleware_def)
  have t: "stub_extractor ''token'' (''token'', None) ?c [''skipper''] =
      ((''token'', None), [''skipper'', ''token''])"
    by (simp add: stub_extractor_def)
  have e2: "stub_extractor ''remoteIP'' ([], Some (errorString ''no address'')) ?c
        [''skipper'', ''token''] =
      (([], Some (errorString ''no address'')), [''skipper'', ''token'', ''remoteIP''])"
    by (simp add: stub_extractor_def)
  have r2: "Process ?m2 stub_next ?c [] =
      (Returned (Some (errorString ''no address'')), [''skipper'', ''token'', ''remoteIP''])"
    using Process_extractor_error [OF a2 sk b2] t c2 e2 by blast
  have a3: "skipper ?m3 = Some (stub_skipper False)"
    and b3: "turnstileResponseExtractorFunc ?m3 = Some (stub_extractor ''token'' (''token'', None))"
    and c3: "remoteIPExtractorFunc ?m3 = Some (stub_extractor ''remoteIP'' (''203.0.113.7'', None))"
    and d3: "idempotencyKeyExtractorFunc ?m3 =
      Some (stub_extractor ''idempotencyKey'' ([], Some (errorString ''no key'')))"
    by (simp_all add: stub_middleware_def)
  have i: "stub_extractor ''remoteIP'' (''203.0.113.7'', None) ?c [''skipper'', ''token''] =
      ((''203.0.113.7'', None), [''skipper'', ''token'', ''remoteIP''])"
    by (simp add: stub_extractor_def)
  have e3: "stub_extractor ''idempotencyKey'' ([], Some (errorString ''no key'')) ?c
        [''skipper'', ''token'', ''remoteIP''] =
      (([], Some (errorString ''no key'')),
       [''skipper'', ''token'', ''remoteIP'', ''idempotencyKey''])"
    by (simp add: stub_extractor_def)
  have r3: "Process ?m3 stub_next ?c [] =
      (Returned (Some (errorString ''no key'')),
       [''skipper'', ''token'', ''remoteIP'', ''idempotencyKey''])"
    using Process_extractor_error [OF a3 sk b3] t c3 i d3 e3 by blast
  show ?thesis
    by (rule conjI [OF r1 conjI [OF r2 r3]])
qed

text \<open>
  Claim C7. When the request reaches the verifier and the verifier returns a non-nil error:
  if \<^verbatim>\<open>errors.Is(err, ErrValidationFailed)\<close> holds, \<open>Process\<close> returns the fixed
  \<^verbatim>\<open>HTTPError\<close> with code 400, the message \<^verbatim>\<open>CloudFlare Turnstile verification failed\<close>
  and no internal error, so nothing of \<open>err\<close> is in it; otherwise it returns \<open>err\<close> itself.
  The downstream handler is arbitrary, so it was not invoked.
\<close>

theorem Process_verifier_error:
  assumes "skipper mw = Some skip" and "skip c s = (False, s1)"
    and "turnstileResponseExtractorFunc mw = Some extractResponse"
    and "extractResponse c s1 = ((v1, None), s2)"
    and "remoteIPExtractorFunc mw = Some extractIP"
    and "extractIP c s2 = ((v2, None), s3)"
    and "idempotencyKeyExtractorFunc mw = Some extractKey"
    and "extractKey c s3 = ((v3, None), s4)"
    and "turnstileVerifier mw = Some verifier"
    and "verifier (Request_Context c) \<lparr>Response = v1, RemoteIP = v2, IdempotencyKey = v3\<rparr> s4 =
           ((resp, Some err), s5)"
  shows "(errors_Is err ErrValidationFailed \<longrightarrow>
            Process mw next c s =
              (Returned (Some (HTTPError 400 ''CloudFlare Turnstile verification failed'' None)), s5)) \<and>
         (\<not> errors_Is err ErrValidationFailed \<longrightarrow>
            Process mw next c s = (Returned (Some err), s5))"
  using assms
  by (simp add: Process_def echo_NewHTTPError_def echo_ErrBadRequest_def)

theorem Process_verifier_error_witness:
  "Process (stub_middleware False (''token'', None) (''203.0.113.7'', None) (''id-1'', None)
      (None, mapErrorCodes [''timeout-or-duplicate''])) stub_next (stub_Context []) [] =
     (Returned (Some (HTTPError 400 ''CloudFlare Turnstile verification failed'' None)),
      [''skipper'', ''token'', ''remoteIP'', ''idempotencyKey'', ''Verify'']) \<and>
   Process (stub_middleware False (''token'', None) (''203.0.113.7'', None) (''id-1'', None)
      (None, mapErrorCodes [''invalid-input-secret''])) stub_next (stub_Context []) [] =
     (Returned (Some (wrapError ''validation error(s) on turnstile: [invalid-input-secret] ''
        ErrInvalidRequest)),
      [''skipper'', ''token'', ''remoteIP'', ''idempotencyKey'', ''Verify''])"
proof -
  let ?c = "stub_Context []"
  let ?e1 = "wrapError ''invalid, duplicate or expired response: [timeout-or-duplicate] ''
      ErrValidationFailed"
  let ?e2 = "wrapError ''validation error(s) on turnstile: [invalid-input-secret] ''
      ErrInvalidRequest"
  let ?m1 = "stub_middleware False (''token'', None) (''203.0.113.7'', None) (''id-1'', None)
      (None, Some ?e1)"
  let ?m2 = "stub_middleware False (''token'', None) (''203.0.113.7'', None) (''id-1'', None)
      (None, Some ?e2)"
  have c1: "mapErrorCodes [''timeout-or-duplicate''] = Some ?e1"
    by (simp add: mapErrorCodes_def code_defs fmt_v_def)
  have c2: "mapErrorCodes [''invalid-input-secret''] = Some ?e2"
    by (simp add: mapErrorCodes_def code_defs fmt_v_def)
  have sk: "stub_skipper False ?c [] = (False, [''skipper''])"
    by (simp add: stub_skipper_def)
  have t: "stub_extractor ''token'' (''token'', None) ?c [''skipper''] =
      ((''token'', None), [''skipper'', ''token''])"
    by (simp add: stub_extractor_def)
  have i: "stub_extractor ''remoteIP'' (''203.0.113.7'', None) ?c [''skipper'', ''token''] =
      ((''203.0.113.7'', None), [''skipper'', ''token'', ''remoteIP''])"
    by (simp add: stub_extractor_def)
  have k: "stub_extractor ''idempotencyKey'' (''id-1'', None) ?c
        [''skipper'', ''token'', ''remoteIP''] =
      ((''id-1'', None), [''skipper'', ''token'', ''remoteIP'', ''idempotencyKey''])"
    by (simp add: stub_extractor_def)
  have f1: "skipper ?m1 = Some (stub_skipper False)"
    "turnstileResponseExtractorFunc ?m1 = Some (stub_extractor ''token'' (''token'', None))"
    "remoteIPExtractorFunc ?m1 = Some (stub_extractor ''remoteIP'' (''203.0.113.7'', None))"
    "idempotencyKeyExtractorFunc ?m1 = Some (stub_extractor ''idempotencyKey'' (''id-1'', None))"
    "turnstileVerifier ?m1 = Some (stub_verifier (None, Some ?e1))"
    by (simp_all add: stub_middleware_def)
  have f2: "skipper ?m2 = Some (stub_skipper False)"
    "turnstileResponseExtractorFunc ?m2 = Some (stub_extractor ''token'' (''token'', None))"
    "remoteIPExtractorFunc ?m2 = Some (stub_extractor ''remoteIP'' (''203.0.113.7'', None))"
    "idempotencyKeyExtractorFunc ?m2 = Some (stub_extractor ''idempotencyKey'' (''id-1'', None))"
    "turnstileVerifier ?m2 = Some (stub_verifier (None, Some ?e2))"
    by (simp_all add: stub_middleware_def)
  have v1: "stub_verifier (None, Some ?e1) (Request_Context ?c)
        \<lparr>Response = ''token'', RemoteIP = ''203.0.113.7'', IdempotencyKey = ''id-1''\<rparr>
        [''skipper'', ''token'', ''remoteIP'', ''idempotencyKey''] =
      ((None, Some ?e1), [''skipper'', ''token'', ''remoteIP'', ''idempotencyKey'', ''Verify''])"
    by (simp add: stub_verifier_def)
  have v2: "stub_verifier (None, Some ?e2) (Request_Context ?c)
        \<lparr>Response = ''token'', RemoteIP = ''203.0.113.7'', IdempotencyKey = ''id-1''\<rparr>
        [''skipper'', ''token'', ''remoteIP'', ''idempotencyKey''] =
      ((None, Some ?e2), [''skipper'', ''token'', ''remoteIP'', ''idempotencyKey'', ''Verify''])"
    by (simp add: stub_verifier_def)
  have is1: "errors_Is ?e1 ErrValidationFailed"
    by simp
  have is2: "\<not> errors_Is ?e2 ErrValidationFailed"
    by simp
  have r1: "Process ?m1 stub_next ?c [] =
     (Returned (Some (HTTPError 400 ''CloudFlare Turnstile verification failed'' None)),
      [''skipper'', ''token'', ''remoteIP'', ''idempotencyKey'', ''Verify''])"
    using Process_verifier_error [OF f1(1) sk f1(2) t f1(3) i f1(4) k f1(5) v1, of stub_next] is1
    by (simp only: simp_thms)
  have r2: "Process ?m2 stub_next ?c [] =
     (Returned (Some ?e2), [''skipper'', ''token'', ''remoteIP'', ''idempotencyKey'', ''Verify''])"
    using Process_verifier_error [OF f2(1) sk f2(2) t f2(3) i f2(4) k f2(5) v2, of stub_next] is2
    by (simp only: simp_thms)
  show ?thesis
    unfolding c1 c2 by (rule conjI [OF r1 r2])
qed

text \<open>
  Claim C10. When \<open>Verify\<close> has decoded a response whose \<^verbatim>\<open>Success\<close> is true, it
  returns that response and a nil error, whatever the error codes of the response are:
  \<open>mapErrorCodes\<close> is not consulted. A middleware whose verifier is this client, on a
  request that reaches the verifier, then is the downstream handler in the state the verifier
  left.
\<close>

theorem Verify_success:
  "(Verify_decode ext t ctx req s = (Inr resp, s') \<and> Success resp \<longrightarrow>
      Verify ext t ctx req s = ((Some resp, None), s')) \<and>
   (skipper mw = Some skip \<and> skip c s0 = (False, s1) \<and>
    turnstileResponseExtractorFunc mw = Some extractResponse \<and>
    extractResponse c s1 = ((v1, None), s2) \<and>
    remoteIPExtractorFunc mw = Some extractIP \<and>
    extractIP c s2 = ((v2, None), s3) \<and>
    idempotencyKeyExtractorFunc mw = Some extractKey \<and>
    extractKey c s3 = ((v3, None), s4) \<and>
    turnstileVerifier mw = Some (Verify ext t) \<and>
    Verify_decode ext t (Request_Context c)
      \<lparr>Response = v1, RemoteIP = v2, IdempotencyKey = v3\<rparr> s4 = (Inr resp, s5) \<and>
    Success resp \<longrightarrow>
      Process mw next c s0 = next c s5)"
  by (simp add: Verify_def Process_def)

theorem Verify_success_witness:
  "Success (stub_response True [''internal-error'']) \<and>
   ErrorCodes (stub_response True [''internal-error'']) \<noteq> [] \<and>
   Verify (stub_externals (stub_response True [''internal-error''])) (NewVerifierClient ''key'') ()
       \<lparr>Response = ''token'', RemoteIP = ''203.0.113.7'', IdempotencyKey = ''id-1''\<rparr> [] =
     ((Some (stub_response True [''internal-error'']), None), [''client.Do'']) \<and>
   Process (NewMiddlewareWithConfig_mw (stub_externals (stub_response True [''internal-error'']))
        ''key'' Config_zero)
       stub_next (stub_Context [(''cf-turnstile-response'', ''token'')]) [] =
     (Returned None, [''Generator'', ''client.Do'', ''next''])"
proof -
  let ?resp = "stub_response True [''internal-error'']"
  let ?ext = "stub_externals ?resp"
  let ?t = "NewVerifierClient ''key''"
  let ?c = "stub_Context [(''cf-turnstile-response'', ''token'')]"
  let ?mw = "NewMiddlewareWithConfig_mw ?ext ''key'' Config_zero"
  have ok: "Success ?resp" and codes: "ErrorCodes ?resp \<noteq> []"
    by (simp_all add: stub_response_def)
  have d: "Verify_decode ?ext ?t ()
      \<lparr>Response = ''token'', RemoteIP = ''203.0.113.7'', IdempotencyKey = ''id-1''\<rparr> [] =
      (Inr ?resp, [''client.Do''])"
    by (simp add: Verify_decode_def stub_externals_def)
  have r1: "Verify ?ext ?t ()
      \<lparr>Response = ''token'', RemoteIP = ''203.0.113.7'', IdempotencyKey = ''id-1''\<rparr> [] =
      ((Some ?resp, None), [''client.Do''])"
    using Verify_success [THEN conjunct1, of ?ext ?t "()"
        "\<lparr>Response = ''token'', RemoteIP = ''203.0.113.7'', IdempotencyKey = ''id-1''\<rparr>"
        "[]" ?resp "[''client.Do'']"] d ok
    by (simp only: simp_thms)
  have f: "skipper ?mw = Some DefaultSkipper"
    "turnstileResponseExtractorFunc ?mw = Some RequestHeaderTurnstileResponseExtractorFunc"
    "remoteIPExtractorFunc ?mw = Some EchoRemoteIPExtractor"
    "idempotencyKeyExtractorFunc ?mw = Some (EchoIdempotencyKeyExtractor ?ext)"
    "turnstileVerifier ?mw = Some (Verify ?ext ?t)"
    by (simp_all add: NewMiddlewareWithConfig_mw_def Config_zero_def)
  have sk: "DefaultSkipper ?c ([]::string list) = (False, [])"
    by (simp add: DefaultSkipper_def)
  have tk: "RequestHeaderTurnstileResponseExtractorFunc ?c ([]::string list) = ((''token'', None), [])"
    by (simp add: RequestHeaderTurnstileResponseExtractorFunc_def
        RequestHeaderTurnstileResponseExtractorFuncWithHeaderName_def
        requestHeaderTurnstileResponseExtractor_Extract_def
        defaultCloudFlareTurnstileHeaderKey_def stub_Context_def)
  have ip: "EchoRemoteIPExtractor ?c ([]::string list) = ((''203.0.113.7'', None), [])"
    by (simp add: EchoRemoteIPExtractor_def stub_Context_def)
  have key: "EchoIdempotencyKeyExtractor ?ext ?c [] = ((''generated-id'', None), [''Generator''])"
    by (simp add: EchoIdempotencyKeyExtractor_def echo_HeaderXRequestID_def stub_Context_def
        stub_externals_def)
  have d2: "Verify_decode ?ext ?t (Request_Context ?c)
      \<lparr>Response = ''token'', RemoteIP = ''203.0.113.7'', IdempotencyKey = ''generated-id''\<rparr>
      [''Generator''] = (Inr ?resp, [''Generator'', ''client.Do''])"
    by (simp add: Verify_decode_def stub_externals_def)
  have n: "stub_next ?c [''Generator'', ''client.Do''] =
      (Returned None, [''Generator'', ''client.Do'', ''next''])"
    by (simp add: stub_next_def)
  have r2: "Process ?mw stub_next ?c [] = (Returned None, [''Generator'', ''client.Do'', ''next''])"
    using Verify_success [THEN conjunct2, of ?mw DefaultSkipper ?c "[]" "[]"
        RequestHeaderTurnstileResponseExtractorFunc "''token''" "[]"
        EchoRemoteIPExtractor "''203.0.113.7''" "[]"
        "EchoIdempotencyKeyExtractor ?ext" "''generated-id''" "[''Generator'']"
        ?ext ?t ?resp "[''Generator'', ''client.Do'']" stub_next]
      f sk tk ip key d2 ok
    by (simp only: n simp_thms)
  show ?thesis
    by (rule conjI [OF ok conjI [OF codes conjI [OF r1 r2]]])
qed

section \<open>Building the middleware from a Config\<close>

text \<open>
  Claim C2. Each field of the middleware that \<open>NewMiddlewareWithConfig\<close> builds is the
  default of that field whenever the field of the \<open>Config\<close> is nil, whatever the other four
  fields of the \<open>Config\<close> are: \<open>DefaultSkipper\<close>, the verifier client made from the secret,
  the extractor of the header \<^verbatim>\<open>cf-turnstile-response\<close>, \<open>EchoRemoteIPExtractor\<close> and
  \<open>EchoIdempotencyKeyExtractor\<close>. With the zero \<open>Config\<close>, and so with \<open>NewMiddleware\<close>,
  all five fields are these defaults.
\<close>

theorem NewMiddlewareWithConfig_defaults:
  "(cfg_Skipper cfg = None \<longrightarrow>
      skipper (NewMiddlewareWithConfig_mw ext sec cfg) = Some DefaultSkipper) \<and>
   (cfg_TurnstileVerifier cfg = None \<longrightarrow>
      turnstileVerifier (NewMiddlewareWithConfig_mw ext sec cfg) =
        Some (Verify ext \<lparr>secret = sec, url = cloudflareTurnstileUrl\<rparr>)) \<and>
   (cfg_TurnstileResponseExtractorFunc cfg = None \<longrightarrow>
      turnstileResponseExtractorFunc (NewMiddlewareWithConfig_mw ext sec cfg) =
        Some (requestHeaderTurnstileResponseExtractor_Extract ''cf-turnstile-response'')) \<and>
   (cfg_RemoteIPExtractorFunc cfg = None \<longrightarrow>
      remoteIPExtractorFunc (NewMiddlewareWithConfig_mw ext sec cfg) = Some EchoRemoteIPExtractor) \<and>
   (cfg_IdempotencyKeyExtractorFunc cfg = None \<longrightarrow>
      idempotencyKeyExtractorFunc (NewMiddlewareWithConfig_mw ext sec cfg) =
        Some (EchoIdempotencyKeyExtractor ext)) \<and>
   NewMiddlewareWithConfig_mw ext sec Config_zero =
     \<lparr>skipper = Some DefaultSkipper,
      turnstileVerifier = Some (Verify ext \<lparr>secret = sec, url = cloudflareTurnstileUrl\<rparr>),
      turnstileResponseExtractorFunc =
        Some (requestHeaderTurnstileResponseExtractor_Extract ''cf-turnstile-response''),
      remoteIPExtractorFunc = Some EchoRemoteIPExtractor,
      idempotencyKeyExtractorFunc = Some (EchoIdempotencyKeyExtractor ext)\<rparr> \<and>
   NewMiddleware ext sec = Process (NewMiddlewareWithConfig_mw ext sec Config_zero)"
  by (simp add: NewMiddlewareWithConfig_mw_def NewMiddleware_def NewMiddlewareWithConfig_def
      Config_zero_def NewVerifierClient_def RequestHeaderTurnstileResponseExtractorFunc_def
      RequestHeaderTurnstileResponseExtractorFuncWithHeaderName_def
      defaultCloudFlareTurnstileHeaderKey_def)

theorem NewMiddlewareWithConfig_defaults_witness:
  "cfg_Skipper (Config_zero :: (string list, unit) Config) = None \<and>
   cfg_TurnstileVerifier (Config_zero :: (string list, unit) Config) = None \<and>
   cfg_TurnstileResponseExtractorFunc (Config_zero :: (string list, unit) Config) = None \<and>
   cfg_RemoteIPExtractorFunc (Config_zero :: (string list, unit) Config) = None \<and>
   cfg_IdempotencyKeyExtractorFunc (Config_zero :: (string list, unit) Config) = None \<and>
   skipper (NewMiddlewareWithConfig_mw (stub_externals (stub_response True [])) ''key'' Config_zero) =
     Some DefaultSkipper \<and>
   turnstileVerifier
     (NewMiddlewareWithConfig_mw (stub_externals (stub_response True [])) ''key'' Config_zero) =
     Some (Verify (stub_externals (stub_response True []))
       \<lparr>secret = ''key'', url = cloudflareTurnstileUrl\<rparr>) \<and>
   turnstileResponseExtractorFunc
     (NewMiddlewareWithConfig_mw (stub_externals (stub_response True [])) ''key'' Config_zero) =
     Some (requestHeaderTurnstileResponseExtractor_Extract ''cf-turnstile-response'') \<and>
   remoteIPExtractorFunc
     (NewMiddlewareWithConfig_mw (stub_externals (stub_response True [])) ''key'' Config_zero) =
     Some EchoRemoteIPExtractor \<and>
   idempotencyKeyExtractorFunc
     (NewMiddlewareWithConfig_mw (stub_externals (stub_response True [])) ''key'' Config_zero) =
     Some (EchoIdempotencyKeyExtractor (stub_externals (stub_response True []))) \<and>
   cfg_RemoteIPExtractorFunc
     ((Config_zero :: (string list, unit) Config)\<lparr>cfg_Skipper := Some (stub_skipper True)\<rparr>) = None \<and>
   remoteIPExtractorFunc
     (NewMiddlewareWithConfig_mw (stub_externals (stub_response True [])) ''key''
        (Config_zero\<lparr>cfg_Skipper := Some (stub_skipper True)\<rparr>)) =
     Some EchoRemoteIPExtractor"
proof -
  let ?ext = "stub_externals (stub_response True [])"
  let ?z = "Config_zero :: (string list, unit) Config"
  let ?o = "?z\<lparr>cfg_Skipper := Some (stub_skipper True)\<rparr>"
  have z: "cfg_Skipper ?z = None" "cfg_TurnstileVerifier ?z = None"
    "cfg_TurnstileResponseExtractorFunc ?z = None" "cfg_RemoteIPExtractorFunc ?z = None"
    "cfg_IdempotencyKeyExtractorFunc ?z = None"
    by (simp_all add: Config_zero_def)
  have o: "cfg_RemoteIPExtractorFunc ?o = None"
    by (simp add: Config_zero_def)
  note d = NewMiddlewareWithConfig_defaults [of ?z ?ext "''key''"]
  note e = NewMiddlewareWithConfig_defaults [of ?o ?ext "''key''"]
  have r1: "skipper (NewMiddlewareWithConfig_mw ?ext ''key'' ?z) = Some DefaultSkipper"
    using d z(1) by blast
  have r2: "turnstileVerifier (NewMiddlewareWithConfig_mw ?ext ''key'' ?z) =
      Some (Verify ?ext \<lparr>secret = ''key'', url = cloudflareTurnstileUrl\<rparr>)"
    using d z(2) by blast
  have r3: "turnstileResponseExtractorFunc (NewMiddlewareWithConfig_mw ?ext ''key'' ?z) =
      Some (requestHeaderTurnstileResponseExtractor_Extract ''cf-turnstile-response'')"
    using d z(3) by blast
  have r4: "remoteIPExtractorFunc (NewMiddlewareWithConfig_mw ?ext ''key'' ?z) =
      Some EchoRemoteIPExtractor"
    using d z(4) by blast
  have r5: "idempotencyKeyExtractorFunc (NewMiddlewareWithConfig_mw ?ext ''key'' ?z) =
      Some (EchoIdempotencyKeyExtractor ?ext)"
    using d z(5) by blast
  have r6: "remoteIPExtractorFunc (NewMiddlewareWithConfig_mw ?ext ''key'' ?o) =
      Some EchoRemoteIPExtractor"
    using e o by blast
  show ?thesis
    by (intro conjI) (rule z r1 r2 r3 r4 r5 o r6)+
qed

text \<open>
  Claim C1 says that an override set in the \<open>Config\<close> is the value the middleware uses.
  The code at such an input: each field of the \<open>Config\<close> is only compared with nil and never
  copied, so a field that is set leaves the field of the middleware nil. With a skip predicate
  set, the handler that \<open>NewMiddlewareWithConfig\<close> returns panics on its first request,
  before anything is invoked.
\<close>

theorem NewMiddlewareWithConfig_override_dropped:
  "(cfg_Skipper cfg = Some skip \<longrightarrow>
      skipper (NewMiddlewareWithConfig_mw ext sec cfg) = None \<and>
      NewMiddlewareWithConfig ext sec cfg handler c s = (Panic, s)) \<and>
   (cfg_TurnstileVerifier cfg = Some verifier \<longrightarrow>
      turnstileVerifier (NewMiddlewareWithConfig_mw ext sec cfg) = None) \<and>
   (cfg_TurnstileResponseExtractorFunc cfg = Some extractResponse \<longrightarrow>
      turnstileResponseExtractorFunc (NewMiddlewareWithConfig_mw ext sec cfg) = None) \<and>
   (cfg_RemoteIPExtractorFunc cfg = Some extractIP \<longrightarrow>
      remoteIPExtractorFunc (NewMiddlewareWithConfig_mw ext sec cfg) = None) \<and>
   (cfg_IdempotencyKeyExtractorFunc cfg = Some extractKey \<longrightarrow>
      idempotencyKeyExtractorFunc (NewMiddlewareWithConfig_mw ext sec cfg) = None)"
  by (simp add: NewMiddlewareWithConfig_mw_def NewMiddlewareWithConfig_def Process_def)

theorem NewMiddlewareWithConfig_override_dropped_witness:
  "cfg_Skipper ((Config_zero :: (string list, unit) Config)
      \<lparr>cfg_Skipper := Some (stub_skipper True)\<rparr>) = Some (stub_skipper True) \<and>
   skipper (NewMiddlewareWithConfig_mw (stub_externals (stub_response True [])) ''key''
      (Config_zero\<lparr>cfg_Skipper := Some (stub_skipper True)\<rparr>)) = None \<and>
   NewMiddlewareWithConfig (stub_externals (stub_response True [])) ''key''
      (Config_zero\<lparr>cfg_Skipper := Some (stub_skipper True)\<rparr>)
      stub_next (stub_Context [(''cf-turnstile-response'', ''token'')]) [] = (Panic, []) \<and>
   turnstileVerifier (NewMiddlewareWithConfig_mw (stub_externals (stub_response True [])) ''key''
      \<lparr>cfg_Skipper = Some (stub_skipper False),
       cfg_TurnstileVerifier = Some (stub_verifier (None, None)),
       cfg_TurnstileResponseExtractorFunc = Some (stub_extractor ''token'' (''token'', None)),
       cfg_RemoteIPExtractorFunc = Some (stub_extractor ''remoteIP'' (''203.0.113.7'', None)),
       cfg_IdempotencyKeyExtractorFunc =
         Some (stub_extractor ''idempotencyKey'' (''id-1'', None))\<rparr>) = None \<and>
   turnstileResponseExtractorFunc
     (NewMiddlewareWithConfig_mw (stub_externals (stub_response True [])) ''key''
      \<lparr>cfg_Skipper = Some (stub_skipper False),
       cfg_TurnstileVerifier = Some (stub_verifier (None, None)),
       cfg_TurnstileResponseExtractorFunc = Some (stub_extractor ''token'' (''token'', None)),
       cfg_RemoteIPExtractorFunc = Some (stub_extractor ''remoteIP'' (''203.0.113.7'', None)),
       cfg_IdempotencyKeyExtractorFunc =
         Some (stub_extractor ''idempotencyKey'' (''id-1'', None))\<rparr>) = None \<and>
   remoteIPExtractorFunc
     (NewMiddlewareWithConfig_mw (stub_externals (stub_response True [])) ''key''
      \<lparr>cfg_Skipper = Some (stub_skipper False),
       cfg_TurnstileVerifier = Some (stub_verifier (None, None)),
       cfg_TurnstileResponseExtractorFunc = Some (stub_extractor ''token'' (''token'', None)),
       cfg_RemoteIPExtractorFunc = Some (stub_extractor ''remoteIP'' (''203.0.113.7'', None)),
       cfg_IdempotencyKeyExtractorFunc =
         Some (stub_extractor ''idempotencyKey'' (''id-1'', None))\<rparr>) = None \<and>
   idempotencyKeyExtractorFunc
     (NewMiddlewareWithConfig_mw (stub_externals (stub_response True [])) ''key''
      \<lparr>cfg_Skipper = Some (stub_skipper False),
       cfg_TurnstileVerifier = Some (stub_verifier (None, None)),
       cfg_TurnstileResponseExtractorFunc = Some (stub_extractor ''token'' (''token'', None)),
       cfg_RemoteIPExtractorFunc = Some (stub_extractor ''remoteIP'' (''203.0.113.7'', None)),
       cfg_IdempotencyKeyExtractorFunc =
         Some (stub_extractor ''idempotencyKey'' (''id-1'', None))\<rparr>) = None"
proof -
  let ?ext = "stub_externals (stub_response True [])"
  let ?c = "stub_Context [(''cf-turnstile-response'', ''token'')]"
  let ?o = "(Config_zero :: (string list, unit) Config)\<lparr>cfg_Skipper := Some (stub_skipper True)\<rparr>"
  let ?all = "\<lparr>cfg_Skipper = Some (stub_skipper False),
       cfg_TurnstileVerifier = Some (stub_verifier (None, None)),
       cfg_TurnstileResponseExtractorFunc = Some (stub_extractor ''token'' (''token'', None)),
       cfg_RemoteIPExtractorFunc = Some (stub_extractor ''remoteIP'' (''203.0.113.7'', None)),
       cfg_IdempotencyKeyExtractorFunc =
         Some (stub_extractor ''idempotencyKey'' (''id-1'', None))\<rparr>"
  have o: "cfg_Skipper ?o = Some (stub_skipper True)"
    by simp
  have a: "cfg_TurnstileVerifier ?all = Some (stub_verifier (None, None))"
    "cfg_TurnstileResponseExtractorFunc ?all = Some (stub_extractor ''token'' (''token'', None))"
    "cfg_RemoteIPExtractorFunc ?all = Some (stub_extractor ''remoteIP'' (''203.0.113.7'', None))"
    "cfg_IdempotencyKeyExtractorFunc ?all = Some (stub_extractor ''idempotencyKey'' (''id-1'', None))"
    by simp_all
  note d = NewMiddlewareWithConfig_override_dropped
    [where cfg = ?o and skip = "stub_skipper True" and ext = ?ext and sec = "''key''"
       and handler = stub_next and c = ?c and s = "[]"]
  note e = NewMiddlewareWithConfig_override_dropped
    [where cfg = ?all and ext = ?ext and sec = "''key''"
       and verifier = "stub_verifier (None, None)"
       and extractResponse = "stub_extractor ''token'' (''token'', None)"
       and extractIP = "stub_extractor ''remoteIP'' (''203.0.113.7'', None)"
       and extractKey = "stub_extractor ''idempotencyKey'' (''id-1'', None)"]
  have r1: "skipper (NewMiddlewareWithConfig_mw ?ext ''key'' ?o) = None"
    and r2: "NewMiddlewareWithConfig ?ext ''key'' ?o stub_next ?c [] = (Panic, [])"
    using d o by blast+
  have r3: "turnstileVerifier (NewMiddlewareWithConfig_mw ?ext ''key'' ?all) = None"
    and r4: "turnstileResponseExtractorFunc (NewMiddlewareWithConfig_mw ?ext ''key'' ?all) = None"
    and r5: "remoteIPExtractorFunc (NewMiddlewareWithConfig_mw ?ext ''key'' ?all) = None"
    and r6: "idempotencyKeyExtractorFunc (NewMiddlewareWithConfig_mw ?ext ''key'' ?all) = None"
    using e a by blast+
  show ?thesis
    by (intro conjI) (rule o r1 r2 r3 r4 r5 r6)+
qed

end
